theory Spec2Isabelle
  imports Complex_Main
begin

section \<open>Numbers and plane coordinates of \<^verbatim>\<open>src/index.ts\<close>\<close>

text \<open>
  The program computes with JavaScript numbers. They are modelled as exact reals: every
  statement below is about the arithmetic the source writes down, not about the rounding
  of IEEE doubles or of the \<^verbatim>\<open>Float32Array\<close> the colours are stored in. Where the
  source would produce a non-finite number (a division by zero) the model returns
  \<open>None\<close>, since the reals have no such value.
\<close>

text \<open>
  \<^verbatim>\<open>type Coord2D = {x: number, y: number}\<close>. The fields are called \<open>coord_x\<close> and
  \<open>coord_y\<close> so that \<open>x\<close> and \<open>y\<close> stay free for variables.
\<close>

record Coord2D =
  coord_x :: real
  coord_y :: real

text \<open>
  \<^verbatim>\<open>Math.min(...values)\<close> is variadic: it returns the least of its arguments, and
  \<^verbatim>\<open>+Infinity\<close> when it is given none. \<open>None\<close> stands for that infinity.
\<close>

fun Math_min :: "real list \<Rightarrow> real option" where
  "Math_min [] = None"
| "Math_min (v # vs) = Some (fold min vs v)"

text \<open>
  \<^verbatim>\<open>Math.pow(b, e)\<close> at the two literal exponents the cloud formula uses, 6 and 1.
\<close>

definition Math_pow_nat :: "real \<Rightarrow> nat \<Rightarrow> real" where
  "Math_pow_nat b e = b ^ e"

section \<open>The cloud intensity of \<^verbatim>\<open>tick\<close> (line 236)\<close>

text \<open>
  \<^verbatim>\<open>const n = Math.min(0.9 * Math.pow(noiseHighCloud, 6)
        + 1.2 * Math.pow(noiseLowCloud, 1) + 0.6 * Math.pow(noiseVeryLowCloud, 1));\<close>
  The call has one argument: the whole sum.
\<close>

definition cloud_n :: "real \<Rightarrow> real \<Rightarrow> real \<Rightarrow> real option" where
  "cloud_n noiseHighCloud noiseLowCloud noiseVeryLowCloud =
     Math_min [0.9 * Math_pow_nat noiseHighCloud 6
               + 1.2 * Math_pow_nat noiseLowCloud 1
               + 0.6 * Math_pow_nat noiseVeryLowCloud 1]"

section \<open>The sky projection and the calls \<^verbatim>\<open>tick\<close> makes to it\<close>

text \<open>
  \<^verbatim>\<open>function sky(focalLength, skyHeight, horizDrop, {x, y})\<close> (lines 269-274) divides
  twice by \<open>fakeY = y + horizDrop\<close>. JavaScript does not raise on a zero divisor, it
  yields an infinity or NaN; the model returns \<open>None\<close> there.
\<close>

definition sky :: "real \<Rightarrow> real \<Rightarrow> real \<Rightarrow> Coord2D \<Rightarrow> Coord2D option" where
  "sky focalLength skyHeight horizDrop c =
     (let fakeY = coord_y c + horizDrop in
      if fakeY = 0 then None
      else Some \<lparr>coord_x = (coord_x c * skyHeight) / fakeY,
                 coord_y = (skyHeight * focalLength) / fakeY\<rparr>)"

text \<open>
  One call of \<^verbatim>\<open>sky\<close>: its arguments \<open>(focalLength, skyHeight, horizDrop, coord)\<close>.
\<close>

type_synonym sky_call = "real \<times> real \<times> real \<times> Coord2D"

text \<open>
  The body of the inner loop of \<^verbatim>\<open>tick\<close> (lines 220-230), reduced to the three calls
  of \<^verbatim>\<open>sky\<close> it makes, in source order. The arguments of \<^verbatim>\<open>sky\<close> depend only on the
  loop counters and the canvas size: \<^verbatim>\<open>rotate\<close>, \<^verbatim>\<open>translate\<close>, \<^verbatim>\<open>scale\<close> and the
  noise lookups consume its result and are left out.
\<close>

definition tick_body :: "real \<Rightarrow> real \<Rightarrow> nat \<Rightarrow> nat \<Rightarrow> sky_call list" where
  "tick_body pxWidth pxHeight i j =
     (let x = ((real j / pxWidth) * 2) - 1;
          y = 1 - ((real i / pxHeight) * 2);
          screenCoord = \<lparr>coord_x = x, coord_y = y\<rparr>;
          horizDrop = 0.0
      in [(1, 100, horizDrop, screenCoord),
          (1, 40, horizDrop, screenCoord),
          (1, 10, horizDrop, screenCoord)])"

text \<open>
  \<^verbatim>\<open>for (let j = 0; j < pxWidth; j++)\<close> and \<^verbatim>\<open>for (let i = 0; i < pxHeight / 2; i++)\<close>:
  the counters are naturals, the bounds are reals.
\<close>

function tick_cols :: "real \<Rightarrow> real \<Rightarrow> nat \<Rightarrow> nat \<Rightarrow> sky_call list" where
  "tick_cols pxWidth pxHeight i j =
     (if real j < pxWidth
      then tick_body pxWidth pxHeight i j @ tick_cols pxWidth pxHeight i (j + 1)
      else [])"
  by pat_completeness auto
termination
  by (relation "measure (\<lambda>(pxWidth, pxHeight, i, j). nat \<lceil>pxWidth\<rceil> - j)") (auto, linarith)

function tick_rows :: "real \<Rightarrow> real \<Rightarrow> nat \<Rightarrow> sky_call list" where
  "tick_rows pxWidth pxHeight i =
     (if real i < pxHeight / 2
      then tick_cols pxWidth pxHeight i 0 @ tick_rows pxWidth pxHeight (i + 1)
      else [])"
  by pat_completeness auto
termination
  by (relation "measure (\<lambda>(pxWidth, pxHeight, i). nat \<lceil>pxHeight / 2\<rceil> - i)") (auto, linarith)

declare tick_cols.simps [simp del] tick_rows.simps [simp del]

text \<open>
  One run of \<^verbatim>\<open>tick\<close> on a canvas of the given size (\<^verbatim>\<open>canvas.width\<close> and
  \<^verbatim>\<open>canvas.height\<close> are unsigned integers): every call of \<^verbatim>\<open>sky\<close>, in order.
\<close>

definition tick :: "nat \<Rightarrow> nat \<Rightarrow> sky_call list" where
  "tick canvasWidth canvasHeight =
     (let cellSize = 4;
          pxWidth = real canvasWidth / cellSize;
          pxHeight = real canvasHeight / cellSize
      in tick_rows pxWidth pxHeight 0)"


section \<open>The colour buffer of \<^verbatim>\<open>runDemo\<close> (lines 109-134)\<close>

text \<open>
  \<^verbatim>\<open>PerlinNoise2D\<close> is imported from \<^verbatim>\<open>./perlin_noise_2d\<close>, which is not among the
  sources. The colour loop uses its two methods only by calling them, so they are
  parameters here: any two functions of the coordinates.
\<close>

record PerlinNoise2D =
  noise :: "real \<Rightarrow> real \<Rightarrow> real"
  noise01 :: "real \<Rightarrow> real \<Rightarrow> real"

text \<open>
  \<^verbatim>\<open>Mesh3D\<close> is imported from \<^verbatim>\<open>./mesh\<close>, which is not among the sources either. The
  record holds the configuration \<^verbatim>\<open>runDemo\<close> passes to its constructor
  (\<^verbatim>\<open>{cols, rows, x, y, z, width, height}\<close>; the origin is \<open>mesh_x\<close>, \<open>mesh_y\<close>, \<open>mesh_z\<close>).
\<close>

record Mesh3D =
  cols :: nat
  rows :: nat
  mesh_x :: real
  mesh_y :: real
  mesh_z :: real
  width :: real
  height :: real

text \<open>
  Modelled from the spec: the accessors \<^verbatim>\<open>numVertexRows\<close>, \<^verbatim>\<open>numVertexCols\<close> and
  \<^verbatim>\<open>numVertices\<close> of the missing \<^verbatim>\<open>Mesh3D\<close>, which the specification gives as
  \<open>rows\<close>, \<open>cols\<close> and \<open>rows * cols\<close>.
\<close>

definition numVertexRows :: "Mesh3D \<Rightarrow> nat" where
  "numVertexRows mesh = rows mesh"

definition numVertexCols :: "Mesh3D \<Rightarrow> nat" where
  "numVertexCols mesh = cols mesh"

definition numVertices :: "Mesh3D \<Rightarrow> nat" where
  "numVertices mesh = rows mesh * cols mesh"

text \<open>
  Lines 116-132: the seven noise samples of vertex \<open>(i, j)\<close> and the three colour
  components the \<^verbatim>\<open>if\<close> chooses, red, green and blue in the order they are written.
\<close>

definition vertex_colour :: "PerlinNoise2D \<Rightarrow> nat \<Rightarrow> nat \<Rightarrow> real \<times> real \<times> real" where
  "vertex_colour perlin i j =
     (let heightNoiseZoom = 20;
          colourNoiseZoom = 10;
          snowLineZoom = 2;
          snowZoom = 15;
          height = noise01 perlin (real j / heightNoiseZoom) (real i / heightNoiseZoom);
          noiseR = noise01 perlin (42134 + real j / colourNoiseZoom) (342452 + real i / colourNoiseZoom);
          noiseG = noise01 perlin (real j / colourNoiseZoom) (real i / colourNoiseZoom);
          noiseB = noise01 perlin (23423 + real j / colourNoiseZoom) (4242341 + real i / colourNoiseZoom);
          noiseSnowLine = noise perlin (9980980 + real j / snowLineZoom) (76876 + real i / snowLineZoom);
          noiseSnow1 = noise01 perlin (74533 + real j / snowZoom) (56452 + real i / snowZoom);
          noiseSnow2 = noise01 perlin (897987 + real j / snowZoom) (342342 + real i / snowZoom)
      in if height > (0.6 + noiseSnowLine * 0.1)
         then (0.7 + noiseSnow1 * 0.1, 0.7 + noiseSnow1 * 0.1, 0.8 + noiseSnow2 * 0.2)
         else (0.1 + noiseR * 0.4, 0.2 + noiseG * 0.5, noiseB * 0.2))"

text \<open>
  The condition of that \<^verbatim>\<open>if\<close> (line 124), with the zoom constants put in: the vertex
  takes the snow colours when it holds, the terrain colours otherwise.
\<close>

definition above_snow_line :: "PerlinNoise2D \<Rightarrow> nat \<Rightarrow> nat \<Rightarrow> bool" where
  "above_snow_line perlin i j \<longleftrightarrow>
     noise01 perlin (real j / 20) (real i / 20)
       > 0.6 + noise perlin (9980980 + real j / 2) (76876 + real i / 2) * 0.1"

text \<open>
  Lines 123-132: the three writes at \<open>base + 0\<close>, \<open>base + 1\<close> and \<open>base + 2\<close>. A write
  past the end of a \<^verbatim>\<open>Float32Array\<close> is ignored, as a list update past the end is.
\<close>

definition colour_body :: "PerlinNoise2D \<Rightarrow> Mesh3D \<Rightarrow> nat \<Rightarrow> nat \<Rightarrow> real list \<Rightarrow> real list" where
  "colour_body perlin mesh i j colours =
     (let (r, g, b) = vertex_colour perlin i j;
          base = 3 * (i * numVertexCols mesh + j)
      in colours[base + 0 := r, base + 1 := g, base + 2 := b])"

text \<open>
  \<^verbatim>\<open>for (let j = 0; j < mesh.numVertexCols(); j++)\<close> inside
  \<^verbatim>\<open>for (let i = 0; i < mesh.numVertexRows(); i++)\<close>, passing the array along.
\<close>

function colour_cols :: "PerlinNoise2D \<Rightarrow> Mesh3D \<Rightarrow> nat \<Rightarrow> nat \<Rightarrow> real list \<Rightarrow> real list" where
  "colour_cols perlin mesh i j colours =
     (if j < numVertexCols mesh
      then colour_cols perlin mesh i (j + 1) (colour_body perlin mesh i j colours)
      else colours)"
  by pat_completeness auto
termination
  by (relation "measure (\<lambda>(perlin, mesh, i, j, colours). numVertexCols mesh - j)") auto

function colour_rows :: "PerlinNoise2D \<Rightarrow> Mesh3D \<Rightarrow> nat \<Rightarrow> real list \<Rightarrow> real list" where
  "colour_rows perlin mesh i colours =
     (if i < numVertexRows mesh
      then colour_rows perlin mesh (i + 1) (colour_cols perlin mesh i 0 colours)
      else colours)"
  by pat_completeness auto
termination
  by (relation "measure (\<lambda>(perlin, mesh, i, colours). numVertexRows mesh - i)") auto

declare colour_cols.simps [simp del] colour_rows.simps [simp del]

text \<open>
  \<^verbatim>\<open>const colours = new Float32Array(mesh.numVertices() * 3)\<close> starts as zeros; the
  buffer is what the two loops leave in it.
\<close>

definition colour_buffer :: "PerlinNoise2D \<Rightarrow> Mesh3D \<Rightarrow> real list" where
  "colour_buffer perlin mesh =
     colour_rows perlin mesh 0 (replicate (numVertices mesh * 3) 0)"

text \<open>
  For stating the result: the component \<open>c\<close> of a colour triple, and the value the
  loops leave at index \<open>k\<close> of a grid with \<open>C\<close> columns.
\<close>

fun component :: "real \<times> real \<times> real \<Rightarrow> nat \<Rightarrow> real" where
  "component (r, g, b) c = (if c = 0 then r else if c = 1 then g else b)"

definition colour_of :: "PerlinNoise2D \<Rightarrow> nat \<Rightarrow> nat \<Rightarrow> real" where
  "colour_of perlin C k = component (vertex_colour perlin (k div 3 div C) (k div 3 mod C)) (k mod 3)"

text \<open>
  A sample noise source and a 2 by 2 grid. The noise is 1 at the origin and 1/2 elsewhere,
  so vertex \<open>(0, 0)\<close> lies above the snow line and the other three below.
\<close>

definition demo_perlin :: PerlinNoise2D where
  "demo_perlin = \<lparr>noise = (\<lambda>x y. 0), noise01 = (\<lambda>x y. if x = 0 \<and> y = 0 then 1 else 1 / 2)\<rparr>"

definition demo_mesh :: Mesh3D where
  "demo_mesh = \<lparr>cols = 2, rows = 2, mesh_x = - 0.5, mesh_y = 0, mesh_z = - 0.5,
                 width = 1.0, height = 1.0\<rparr>"

section \<open>The grid mesh generator\<close>

text \<open>
  The methods of \<^verbatim>\<open>Mesh3D\<close> live in \<^verbatim>\<open>./mesh\<close>, which is not among the sources;
  \<^verbatim>\<open>src/index.ts\<close> uploads \<^verbatim>\<open>mesh.triangleIndexBuffer()\<close> and
  \<^verbatim>\<open>mesh.lineStripIndexBuffer()\<close> and draws \<^verbatim>\<open>mesh.triangleNumIndices()\<close> indices.
  This section follows the specification (4.4, Grid Mesh Generator).
\<close>

text \<open>
  Modelled from the spec: the index of vertex \<open>(i, j)\<close> of the missing mesh. Vertices
  are stored "in row-major order (\<open>3*(i*cols+j)\<close> offset)", three floats each.
\<close>

definition vertexIndex :: "Mesh3D \<Rightarrow> nat \<Rightarrow> nat \<Rightarrow> nat" where
  "vertexIndex mesh i j = i * cols mesh + j"

text \<open>
  Modelled from the spec: the six indices of one cell of the missing
  \<^verbatim>\<open>triangleIndexBuffer\<close>, "two triangles covering the quad formed by vertices (i,j),
  (i,j+1), (i+1,j), (i+1,j+1)". The order within a triangle is one fixed choice, the
  same for every cell.
\<close>

definition cellTriangles :: "Mesh3D \<Rightarrow> nat \<Rightarrow> nat \<Rightarrow> nat list" where
  "cellTriangles mesh i j =
     [vertexIndex mesh i j, vertexIndex mesh (i + 1) j, vertexIndex mesh i (j + 1),
      vertexIndex mesh i (j + 1), vertexIndex mesh (i + 1) j, vertexIndex mesh (i + 1) (j + 1)]"

text \<open>
  Modelled from the spec: the missing \<^verbatim>\<open>triangleIndexBuffer()\<close>, "for each interior
  cell (i in [0, rows-2], j in [0, cols-2])" the two triangles of the cell, row by row.
\<close>

definition triangleIndexBuffer :: "Mesh3D \<Rightarrow> nat list" where
  "triangleIndexBuffer mesh =
     concat (map (\<lambda>i. concat (map (\<lambda>j. cellTriangles mesh i j) [0 ..< cols mesh - 1]))
                 [0 ..< rows mesh - 1])"

text \<open>
  Modelled from the spec: the missing \<^verbatim>\<open>lineStripIndexBuffer()\<close>, "a boustrophedon
  traversal row by row, reversing direction each row to keep the strip connected".
\<close>

definition lineStripRow :: "Mesh3D \<Rightarrow> nat \<Rightarrow> nat list" where
  "lineStripRow mesh i =
     (let row = map (\<lambda>j. vertexIndex mesh i j) [0 ..< cols mesh]
      in if even i then row else rev row)"

definition lineStripIndexBuffer :: "Mesh3D \<Rightarrow> nat list" where
  "lineStripIndexBuffer mesh = concat (map (lineStripRow mesh) [0 ..< rows mesh])"

text \<open>
  Modelled from the spec: the missing \<^verbatim>\<open>triangleNumIndices()\<close>, the length of the
  triangle index buffer.
\<close>

definition triangleNumIndices :: "Mesh3D \<Rightarrow> nat" where
  "triangleNumIndices mesh = length (triangleIndexBuffer mesh)"

text \<open>
  The grid of the specification's sizing example: 10 rows of 5 vertices.
\<close>

definition spec_mesh :: Mesh3D where
  "spec_mesh = \<lparr>cols = 5, rows = 10, mesh_x = 0, mesh_y = 0, mesh_z = 0, width = 2, height = 2\<rparr>"

section \<open>Properties\<close>


subsection \<open>C4: the index buffers reference valid vertices\<close>

lemma vertexIndex_less:
  assumes "i < rows mesh" and "j < cols mesh"
  shows "vertexIndex mesh i j < rows mesh * cols mesh"
proof -
  from assms(2) have "i * cols mesh + j < (i + 1) * cols mesh" by simp
  also from assms(1) have "(i + 1) * cols mesh \<le> rows mesh * cols mesh"
    by (intro mult_le_mono1) simp
  finally show ?thesis by (simp add: vertexIndex_def)
qed

lemma length_cellTriangles: "length (cellTriangles mesh i j) = 6"
  by (simp add: cellTriangles_def)

lemma length_triangleIndexBuffer:
  "length (triangleIndexBuffer mesh) = (rows mesh - 1) * (cols mesh - 1) * 6"
  by (simp add: triangleIndexBuffer_def length_concat comp_def length_cellTriangles sum_list_triv)

lemma cellTriangles_less:
  assumes "i < rows mesh - 1" and "j < cols mesh - 1" and "v \<in> set (cellTriangles mesh i j)"
  shows "v < rows mesh * cols mesh"
proof -
  from assms(1,2) have "i < rows mesh" "i + 1 < rows mesh" "j < cols mesh" "j + 1 < cols mesh"
    by simp_all
  then have "vertexIndex mesh i j < rows mesh * cols mesh"
    "vertexIndex mesh (i + 1) j < rows mesh * cols mesh"
    "vertexIndex mesh i (j + 1) < rows mesh * cols mesh"
    "vertexIndex mesh (i + 1) (j + 1) < rows mesh * cols mesh"
    by (simp_all only: vertexIndex_less)
  with assms(3) show ?thesis
    by (auto simp: cellTriangles_def)
qed

lemma triangleIndexBuffer_less:
  assumes "v \<in> set (triangleIndexBuffer mesh)"
  shows "v < rows mesh * cols mesh"
proof -
  from assms obtain i j where "i < rows mesh - 1" "j < cols mesh - 1"
      "v \<in> set (cellTriangles mesh i j)"
    unfolding triangleIndexBuffer_def by auto
  then show ?thesis by (rule cellTriangles_less)
qed

lemma lineStripIndexBuffer_less:
  "v \<in> set (lineStripIndexBuffer mesh) \<Longrightarrow> v < rows mesh * cols mesh"
  by (auto simp: lineStripIndexBuffer_def lineStripRow_def Let_def vertexIndex_less
      split: if_splits)

text \<open>
  C4. For a grid with at least two columns and two rows, the triangle index buffer has
  exactly \<open>(rows - 1) * (cols - 1) * 6\<close> entries, and every index in it and in the
  line-strip index buffer is a valid vertex index, below \<open>rows * cols\<close>. For 10 rows and
  5 columns that is 216 indices, all below 50.
\<close>

theorem index_buffers_valid:
  assumes "2 \<le> cols mesh" and "2 \<le> rows mesh"
  shows "length (triangleIndexBuffer mesh) = (rows mesh - 1) * (cols mesh - 1) * 6
     \<and> triangleNumIndices mesh = (rows mesh - 1) * (cols mesh - 1) * 6
     \<and> (\<forall>v \<in> set (triangleIndexBuffer mesh). v < numVertices mesh)
     \<and> (\<forall>v \<in> set (lineStripIndexBuffer mesh). v < numVertices mesh)
     \<and> numVertices mesh = rows mesh * cols mesh"
  by (simp add: length_triangleIndexBuffer triangleNumIndices_def numVertices_def
      triangleIndexBuffer_less lineStripIndexBuffer_less)

theorem index_buffers_valid_witness:
  "2 \<le> cols spec_mesh \<and> 2 \<le> rows spec_mesh
   \<and> numVertices spec_mesh = 50
   \<and> length (triangleIndexBuffer spec_mesh) = 216
   \<and> 49 \<in> set (triangleIndexBuffer spec_mesh)
   \<and> 45 \<in> set (lineStripIndexBuffer spec_mesh)
   \<and> 49 < numVertices spec_mesh \<and> 45 < numVertices spec_mesh"
proof -
  have c: "2 \<le> cols spec_mesh" and r: "2 \<le> rows spec_mesh"
    by (simp_all add: spec_mesh_def)
  have n: "numVertices spec_mesh = 50"
    by (simp add: numVertices_def spec_mesh_def)
  have t: "49 \<in> set (triangleIndexBuffer spec_mesh)"
    by code_simp
  have l: "45 \<in> set (lineStripIndexBuffer spec_mesh)"
    by code_simp
  note valid = index_buffers_valid [OF c r]
  from valid have len: "length (triangleIndexBuffer spec_mesh) = 216"
    by (simp add: spec_mesh_def)
  from valid t l have "49 < numVertices spec_mesh" "45 < numVertices spec_mesh"
    by blast+
  with c r n t l len show ?thesis by blast
qed

subsection \<open>C8: the single-argument minimum is no clamp\<close>

lemma Math_min_single: "Math_min [v] = Some v"
  by simp

text \<open>
  C8. In the tick loop the cloud intensity \<open>n\<close> is \<^verbatim>\<open>Math.min\<close> of a single argument,
  which is that argument: \<open>n = 0.9 * h^6 + 1.2 * l + 0.6 * v\<close>, with no upper clamp. There
  are noise values inside the ranges of \<^verbatim>\<open>noise01\<close> (\<open>[0, 1]\<close>) and \<^verbatim>\<open>noise\<close>
  (\<open>[-1, 1]\<close>) for which \<open>n\<close> exceeds 1: with \<open>h = l = 1\<close> every admissible \<open>v\<close> gives
  \<open>n \<ge> 1.5\<close>.
\<close>

theorem cloud_n_unclamped:
  "cloud_n h l v = Some (0.9 * h ^ 6 + 1.2 * l + 0.6 * v)
   \<and> (\<exists>h' l' v' n. 0 \<le> h' \<and> h' \<le> 1 \<and> 0 \<le> l' \<and> l' \<le> 1 \<and> - 1 \<le> v' \<and> v' \<le> 1
        \<and> cloud_n h' l' v' = Some n \<and> 1 < n)
   \<and> cloud_n 1 1 (- 1) = Some (3 / 2)"
proof -
  have eq: "\<And>a b c. cloud_n a b c = Some (0.9 * a ^ 6 + 1.2 * b + 0.6 * c)"
    by (simp add: cloud_n_def Math_pow_nat_def)
  have "cloud_n 1 1 (- 1) = Some (3 / 2)"
    by (simp add: eq)
  moreover have "\<exists>h' l' v' n. 0 \<le> h' \<and> h' \<le> 1 \<and> 0 \<le> l' \<and> l' \<le> 1 \<and> - 1 \<le> v' \<and> v' \<le> 1
        \<and> cloud_n h' l' v' = Some n \<and> (1::real) < n"
    by (rule exI [of _ 1], rule exI [of _ 1], rule exI [of _ "- 1"], rule exI [of _ "3 / 2"])
       (simp add: eq)
  ultimately show ?thesis
    using eq by blast
qed

subsection \<open>C9: the colour components stay in the unit interval\<close>

lemma length_colour_body [simp]: "length (colour_body p m i j cs) = length cs"
  by (simp add: colour_body_def Let_def split: prod.splits)

lemma triple_update_nth:
  "k < length cs \<Longrightarrow>
   cs[n + 0 := r, n + 1 := g, n + 2 := b] ! k =
     (if k = n + 2 then b else if k = n + 1 then g else if k = n then r else cs ! k)"
  by (simp add: nth_list_update)

lemma colour_body_unfold:
  "vertex_colour p i j = (r, g, b) \<Longrightarrow>
   colour_body p m i j cs =
     cs[3 * (i * cols m + j) + 0 := r, 3 * (i * cols m + j) + 1 := g, 3 * (i * cols m + j) + 2 := b]"
  by (simp add: colour_body_def numVertexCols_def Let_def)

lemma colour_body_nth:
  assumes "k < length cs" and "j < cols m"
  shows "colour_body p m i j cs ! k =
     (if 3 * (i * cols m + j) \<le> k \<and> k < 3 * (i * cols m + j) + 3
      then colour_of p (cols m) k else cs ! k)"
proof -
  define n where "n = i * cols m + j"
  obtain r g b where v: "vertex_colour p i j = (r, g, b)"
    by (cases "vertex_colour p i j") auto
  have upd: "colour_body p m i j cs ! k =
      (if k = 3 * n + 2 then b else if k = 3 * n + 1 then g else if k = 3 * n then r else cs ! k)"
    unfolding colour_body_unfold [OF v] n_def using assms(1) by (rule triple_update_nth)
  have ij: "n div cols m = i" "n mod cols m = j"
    using assms(2) by (simp_all add: n_def)
  show ?thesis
  proof (cases "3 * n \<le> k \<and> k < 3 * n + 3")
    case True
    then consider "k = 3 * n" | "k = 3 * n + 1" | "k = 3 * n + 2" by linarith
    then have "colour_body p m i j cs ! k = colour_of p (cols m) k"
    proof cases
      case 1
      then have "k div 3 = n" "k mod 3 = 0" by simp_all
      moreover from upd 1 have "colour_body p m i j cs ! k = r" by simp
      ultimately show ?thesis by (simp add: colour_of_def ij v)
    next
      case 2
      then have "k div 3 = n" "k mod 3 = 1" by presburger+
      moreover from upd 2 have "colour_body p m i j cs ! k = g" by simp
      ultimately show ?thesis by (simp add: colour_of_def ij v)
    next
      case 3
      then have "k div 3 = n" "k mod 3 = 2" by presburger+
      moreover from upd 3 have "colour_body p m i j cs ! k = b" by simp
      ultimately show ?thesis by (simp add: colour_of_def ij v)
    qed
    with True show ?thesis by (simp add: n_def)
  next
    case False
    then have "k \<noteq> 3 * n" "k \<noteq> 3 * n + 1" "k \<noteq> 3 * n + 2" by linarith+
    with False show ?thesis by (simp add: upd n_def)
  qed
qed

lemma length_colour_cols [simp]: "length (colour_cols p m i j cs) = length cs"
proof (induction p m i j cs rule: colour_cols.induct)
  case (1 perlin mesh i j colours)
  then show ?case
    by (subst colour_cols.simps) simp
qed

lemma colour_cols_nth:
  "k < length cs \<Longrightarrow>
   colour_cols p m i j cs ! k =
     (if 3 * (i * cols m + j) \<le> k \<and> k < 3 * (i * cols m + cols m)
      then colour_of p (cols m) k else cs ! k)"
proof (induction p m i j cs rule: colour_cols.induct)
  case (1 perlin mesh i j colours)
  show ?case
  proof (cases "j < cols mesh")
    case True
    then have step: "colour_cols perlin mesh i j colours
        = colour_cols perlin mesh i (j + 1) (colour_body perlin mesh i j colours)"
      by (subst colour_cols.simps) (simp add: numVertexCols_def)
    from True have IH: "colour_cols perlin mesh i (j + 1) (colour_body perlin mesh i j colours) ! k =
       (if 3 * (i * cols mesh + (j + 1)) \<le> k \<and> k < 3 * (i * cols mesh + cols mesh)
        then colour_of perlin (cols mesh) k else colour_body perlin mesh i j colours ! k)"
      using "1.IH" "1.prems" by (simp add: numVertexCols_def)
    have body: "colour_body perlin mesh i j colours ! k =
       (if 3 * (i * cols mesh + j) \<le> k \<and> k < 3 * (i * cols mesh + j) + 3
        then colour_of perlin (cols mesh) k else colours ! k)"
      using "1.prems" True by (rule colour_body_nth)
    from True show ?thesis
      unfolding step IH body by auto
  next
    case False
    then have "colour_cols perlin mesh i j colours = colours"
      by (subst colour_cols.simps) (simp add: numVertexCols_def)
    with False show ?thesis by simp
  qed
qed

lemma length_colour_rows [simp]: "length (colour_rows p m i cs) = length cs"
proof (induction p m i cs rule: colour_rows.induct)
  case (1 perlin mesh i colours)
  then show ?case
    by (subst colour_rows.simps) simp
qed

lemma colour_rows_nth:
  "k < length cs \<Longrightarrow>
   colour_rows p m i cs ! k =
     (if 3 * (i * cols m) \<le> k \<and> k < 3 * (rows m * cols m)
      then colour_of p (cols m) k else cs ! k)"
proof (induction p m i cs rule: colour_rows.induct)
  case (1 perlin mesh i colours)
  show ?case
  proof (cases "i < rows mesh")
    case True
    then have step: "colour_rows perlin mesh i colours
        = colour_rows perlin mesh (i + 1) (colour_cols perlin mesh i 0 colours)"
      by (subst colour_rows.simps) (simp add: numVertexRows_def)
    from True have IH: "colour_rows perlin mesh (i + 1) (colour_cols perlin mesh i 0 colours) ! k =
       (if 3 * ((i + 1) * cols mesh) \<le> k \<and> k < 3 * (rows mesh * cols mesh)
        then colour_of perlin (cols mesh) k else colour_cols perlin mesh i 0 colours ! k)"
      using "1.IH" "1.prems" by (simp add: numVertexRows_def)
    have row: "colour_cols perlin mesh i 0 colours ! k =
       (if 3 * (i * cols mesh + 0) \<le> k \<and> k < 3 * (i * cols mesh + cols mesh)
        then colour_of perlin (cols mesh) k else colours ! k)"
      using "1.prems" by (rule colour_cols_nth)
    from True have "(i + 1) * cols mesh \<le> rows mesh * cols mesh"
      by (intro mult_le_mono1) simp
    then have le: "3 * (i * cols mesh + cols mesh) \<le> 3 * (rows mesh * cols mesh)"
      by (simp add: algebra_simps)
    show ?thesis
      unfolding step IH row using le by (auto simp: algebra_simps)
  next
    case False
    then have stop: "colour_rows perlin mesh i colours = colours"
      by (subst colour_rows.simps) (simp add: numVertexRows_def)
    from False have ge: "rows mesh * cols mesh \<le> i * cols mesh"
      by (intro mult_le_mono1) simp
    then have "\<not> (3 * (i * cols mesh) \<le> k \<and> k < 3 * (rows mesh * cols mesh))"
      by linarith
    then show ?thesis unfolding stop by presburger
  qed
qed


lemma colour_buffer_nth:
  assumes "k < 3 * (rows m * cols m)"
  shows "colour_buffer p m ! k = colour_of p (cols m) k"
proof -
  have "k < length (replicate (numVertices m * 3) (0::real))"
    using assms by (simp add: numVertices_def)
  from colour_rows_nth [OF this, of p m 0] assms show ?thesis
    by (simp add: colour_buffer_def)
qed

lemma index_decompose:
  fixes k R C :: nat
  assumes "k < 3 * (R * C)"
  shows "k div 3 div C < R \<and> k div 3 mod C < C \<and> k mod 3 < 3
         \<and> k = 3 * (k div 3 div C * C + k div 3 mod C) + k mod 3"
proof -
  from assms have v: "k div 3 < R * C" by simp
  then have "0 < C" by (cases C) simp_all
  moreover from v have "k div 3 div C < R"
    by (simp add: less_mult_imp_div_less)
  ultimately show ?thesis by simp
qed

lemma vertex_colour_ranges:
  assumes n01: "\<forall>x y. 0 \<le> noise01 p x y \<and> noise01 p x y \<le> 1"
  shows "case vertex_colour p i j of (r, g, b) \<Rightarrow>
           if above_snow_line p i j
           then 0.7 \<le> r \<and> r \<le> 0.8 \<and> 0.7 \<le> g \<and> g \<le> 0.8 \<and> 0.8 \<le> b \<and> b \<le> 1.0
           else 0.1 \<le> r \<and> r \<le> 0.5 \<and> 0.2 \<le> g \<and> g \<le> 0.7 \<and> 0 \<le> b \<and> b \<le> 0.2"
proof -
  have b: "0 \<le> noise01 p x y" "noise01 p x y \<le> 1" for x y
    using n01 by simp_all
  show ?thesis
    using b [of "42134 + real j / 10" "342452 + real i / 10"]
      b [of "real j / 10" "real i / 10"]
      b [of "23423 + real j / 10" "4242341 + real i / 10"]
      b [of "74533 + real j / 15" "56452 + real i / 15"]
      b [of "897987 + real j / 15" "342342 + real i / 15"]
    by (simp add: vertex_colour_def above_snow_line_def Let_def)
qed

lemma component_unit:
  assumes n01: "\<forall>x y. 0 \<le> noise01 p x y \<and> noise01 p x y \<le> 1"
  shows "0 \<le> component (vertex_colour p i j) c \<and> component (vertex_colour p i j) c \<le> 1"
proof -
  obtain r g b where v: "vertex_colour p i j = (r, g, b)"
    by (cases "vertex_colour p i j") auto
  from vertex_colour_ranges [OF n01, of i j] show ?thesis
    unfolding v by (cases "above_snow_line p i j") auto
qed

text \<open>
  C9. If \<^verbatim>\<open>noise01\<close> returns values in \<open>[0, 1]\<close>, every entry of the colour buffer lies
  in \<open>[0, 1]\<close>: the snow branch writes red and green in \<open>[0.7, 0.8]\<close> and blue in
  \<open>[0.8, 1.0]\<close>, the terrain branch red in \<open>[0.1, 0.5]\<close>, green in \<open>[0.2, 0.7]\<close> and blue
  in \<open>[0, 0.2]\<close>. The buffer has \<open>3 * numVertices\<close> entries and the offsets
  \<open>3 * (i * cols + j)\<close> cover all of them: every index is \<open>3 * (i * cols + j) + c\<close> for
  a vertex \<open>(i, j)\<close> of the grid and a component \<open>c < 3\<close>, and holds that vertex's
  component. The range of \<^verbatim>\<open>noise\<close> is not needed: it only decides which branch is
  taken.
\<close>

theorem colour_buffer_unit_range:
  assumes n01: "\<forall>x y. 0 \<le> noise01 perlin x y \<and> noise01 perlin x y \<le> 1"
  shows "length (colour_buffer perlin mesh) = numVertices mesh * 3
     \<and> (\<forall>k < length (colour_buffer perlin mesh).
           0 \<le> colour_buffer perlin mesh ! k \<and> colour_buffer perlin mesh ! k \<le> 1)
     \<and> (\<forall>k < length (colour_buffer perlin mesh).
           \<exists>i < numVertexRows mesh. \<exists>j < numVertexCols mesh. \<exists>c < 3.
             k = 3 * (i * numVertexCols mesh + j) + c
             \<and> colour_buffer perlin mesh ! k = component (vertex_colour perlin i j) c)
     \<and> (\<forall>i j. case vertex_colour perlin i j of (r, g, b) \<Rightarrow>
           if above_snow_line perlin i j
           then 0.7 \<le> r \<and> r \<le> 0.8 \<and> 0.7 \<le> g \<and> g \<le> 0.8 \<and> 0.8 \<le> b \<and> b \<le> 1.0
           else 0.1 \<le> r \<and> r \<le> 0.5 \<and> 0.2 \<le> g \<and> g \<le> 0.7 \<and> 0 \<le> b \<and> b \<le> 0.2)"
proof -
  have len: "length (colour_buffer perlin mesh) = numVertices mesh * 3"
    by (simp add: colour_buffer_def)
  have cover: "\<exists>i < numVertexRows mesh. \<exists>j < numVertexCols mesh. \<exists>c < 3.
             k = 3 * (i * numVertexCols mesh + j) + c
             \<and> colour_buffer perlin mesh ! k = component (vertex_colour perlin i j) c"
    if "k < length (colour_buffer perlin mesh)" for k
  proof -
    from that have k: "k < 3 * (rows mesh * cols mesh)"
      by (simp add: len numVertices_def)
    from index_decompose [OF k] colour_buffer_nth [OF k, of perlin] show ?thesis
      unfolding numVertexRows_def numVertexCols_def colour_of_def by blast
  qed
  have unit: "0 \<le> colour_buffer perlin mesh ! k \<and> colour_buffer perlin mesh ! k \<le> 1"
    if "k < length (colour_buffer perlin mesh)" for k
    using cover [OF that] component_unit [OF n01] by auto
  from len cover unit vertex_colour_ranges [OF n01] show ?thesis
    by blast
qed


theorem colour_buffer_unit_range_witness:
  "(\<forall>x y. 0 \<le> noise01 demo_perlin x y \<and> noise01 demo_perlin x y \<le> 1)
   \<and> colour_buffer demo_perlin demo_mesh
       = [3 / 4, 3 / 4, 9 / 10, 3 / 10, 9 / 20, 1 / 10, 3 / 10, 9 / 20, 1 / 10, 3 / 10, 9 / 20, 1 / 10]
   \<and> above_snow_line demo_perlin 0 0
   \<and> \<not> above_snow_line demo_perlin 0 1
   \<and> length (colour_buffer demo_perlin demo_mesh) = 12
   \<and> 0 \<le> colour_buffer demo_perlin demo_mesh ! 2
   \<and> colour_buffer demo_perlin demo_mesh ! 2 \<le> 1"
proof -
  have hyp: "\<forall>x y. 0 \<le> noise01 demo_perlin x y \<and> noise01 demo_perlin x y \<le> 1"
    by (simp add: demo_perlin_def)
  have buf: "colour_buffer demo_perlin demo_mesh
       = [3 / 4, 3 / 4, 9 / 10, 3 / 10, 9 / 20, 1 / 10, 3 / 10, 9 / 20, 1 / 10, 3 / 10, 9 / 20, 1 / 10]"
    by (simp add: colour_buffer_def colour_rows.simps colour_cols.simps colour_body_def
        vertex_colour_def numVertices_def numVertexRows_def numVertexCols_def
        demo_perlin_def demo_mesh_def Let_def eval_nat_numeral)
  have snow: "above_snow_line demo_perlin 0 0" "\<not> above_snow_line demo_perlin 0 1"
    by (simp_all add: above_snow_line_def demo_perlin_def)
  have len: "numVertices demo_mesh * 3 = 12"
    by (simp add: numVertices_def demo_mesh_def)
  from colour_buffer_unit_range [OF hyp, of demo_mesh] len
  have "length (colour_buffer demo_perlin demo_mesh) = 12"
    and "0 \<le> colour_buffer demo_perlin demo_mesh ! 2 \<and> colour_buffer demo_perlin demo_mesh ! 2 \<le> 1"
    by auto
  with hyp buf snow show ?thesis by blast
qed

subsection \<open>C10: the divisor of the sky projection\<close>

lemma sky_None_iff: "sky f s d c = None \<longleftrightarrow> coord_y c + d = 0"
  by (simp add: sky_def Let_def)

lemma tick_cols_calls:
  "(f, s, d, c) \<in> set (tick_cols pxWidth pxHeight i j)
   \<Longrightarrow> d = 0 \<and> coord_y c = 1 - ((real i / pxHeight) * 2)"
proof (induction pxWidth pxHeight i j rule: tick_cols.induct)
  case (1 pxWidth pxHeight i j)
  show ?case
  proof (cases "real j < pxWidth")
    case True
    with "1.prems" have "(f, s, d, c) \<in> set (tick_body pxWidth pxHeight i j)
        \<or> (f, s, d, c) \<in> set (tick_cols pxWidth pxHeight i (j + 1))"
      by (subst (asm) tick_cols.simps) simp
    then show ?thesis
    proof
      assume "(f, s, d, c) \<in> set (tick_body pxWidth pxHeight i j)"
      then show ?thesis by (auto simp: tick_body_def Let_def)
    next
      assume "(f, s, d, c) \<in> set (tick_cols pxWidth pxHeight i (j + 1))"
      with True "1.IH" show ?thesis by simp
    qed
  next
    case False
    with "1.prems" show ?thesis by (subst (asm) tick_cols.simps) simp
  qed
qed

lemma tick_rows_calls:
  "(f, s, d, c) \<in> set (tick_rows pxWidth pxHeight i)
   \<Longrightarrow> \<exists>i'. real i' < pxHeight / 2 \<and> d = 0 \<and> coord_y c = 1 - ((real i' / pxHeight) * 2)"
proof (induction pxWidth pxHeight i rule: tick_rows.induct)
  case (1 pxWidth pxHeight i)
  show ?case
  proof (cases "real i < pxHeight / 2")
    case True
    with "1.prems" have "(f, s, d, c) \<in> set (tick_cols pxWidth pxHeight i 0)
        \<or> (f, s, d, c) \<in> set (tick_rows pxWidth pxHeight (i + 1))"
      by (subst (asm) tick_rows.simps) simp
    then show ?thesis
    proof
      assume "(f, s, d, c) \<in> set (tick_cols pxWidth pxHeight i 0)"
      with True tick_cols_calls show ?thesis by blast
    next
      assume "(f, s, d, c) \<in> set (tick_rows pxWidth pxHeight (i + 1))"
      with True "1.IH" show ?thesis by simp
    qed
  next
    case False
    with "1.prems" show ?thesis by (subst (asm) tick_rows.simps) simp
  qed
qed

lemma row_y_positive:
  assumes "real i < pxHeight / 2"
  shows "0 < 1 - ((real i / pxHeight) * 2)"
proof -
  have "0 \<le> real i" by simp
  with assms have pos: "0 < pxHeight" by linarith
  from assms have "real i * 2 < pxHeight" by simp
  with pos have "(real i * 2) / pxHeight < 1" by simp
  then show ?thesis by simp
qed

text \<open>
  C10. \<^verbatim>\<open>sky\<close> divides by \<open>fakeY = y + horizDrop\<close> and has a finite result exactly when
  that divisor is not zero. Every call \<^verbatim>\<open>tick\<close> makes has \<open>horizDrop = 0\<close> and
  \<open>y = 1 - 2 i / pxHeight\<close> with \<open>i < pxHeight / 2\<close>, so the divisor is strictly positive
  and the division by zero is never reached.
\<close>

theorem tick_sky_divisor_positive:
  "(sky f s d c = None \<longleftrightarrow> coord_y c + d = 0)
   \<and> (\<forall>(f', s', d', c') \<in> set (tick canvasWidth canvasHeight).
         d' = 0 \<and> 0 < coord_y c' + d' \<and> sky f' s' d' c' \<noteq> None)"
proof -
  have "d' = 0 \<and> 0 < coord_y c' + d' \<and> sky f' s' d' c' \<noteq> None"
    if "(f', s', d', c') \<in> set (tick canvasWidth canvasHeight)" for f' s' d' c'
  proof -
    from that obtain i' where i': "real i' < (real canvasHeight / 4) / 2"
        and d': "d' = 0" and y: "coord_y c' = 1 - ((real i' / (real canvasHeight / 4)) * 2)"
      unfolding tick_def Let_def using tick_rows_calls by blast
    from row_y_positive [OF i'] y d' have "0 < coord_y c' + d'" by simp
    with d' show ?thesis by (simp add: sky_None_iff)
  qed
  then show ?thesis by (auto simp: sky_None_iff)
qed

theorem tick_sky_divisor_positive_witness:
  "(1, 100, 0, \<lparr>coord_x = - 1, coord_y = 1 / 2\<rparr>) \<in> set (tick 8 16)
   \<and> 0 < coord_y \<lparr>coord_x = - 1, coord_y = 1 / 2\<rparr> + (0::real)
   \<and> sky 1 100 0 \<lparr>coord_x = - 1, coord_y = 1 / 2\<rparr> = Some \<lparr>coord_x = - 200, coord_y = 200\<rparr>
   \<and> sky 1 100 0 \<lparr>coord_x = - 1, coord_y = 1 / 2\<rparr> \<noteq> None"
proof -
  have mem: "(1, 100, 0, \<lparr>coord_x = - 1, coord_y = 1 / 2\<rparr>) \<in> set (tick 8 16)"
    by (simp add: tick_def tick_rows.simps tick_cols.simps tick_body_def Let_def)
  have val: "sky 1 100 0 \<lparr>coord_x = - 1, coord_y = 1 / 2\<rparr> = Some \<lparr>coord_x = - 200, coord_y = 200\<rparr>"
    by (simp add: sky_def)
  from mem val tick_sky_divisor_positive [of 1 100 0 "\<lparr>coord_x = - 1, coord_y = 1 / 2\<rparr>" 8 16]
  show ?thesis by auto
qed

end
